theory Spec2Isabelle
  imports Main
begin

section \<open>Data model (src/types/family.ts)\<close>

text \<open>
  The string-literal unions of the source become datatypes, one constructor per literal.
  A \<open>FamilyNode\<close> is a tagged union: the shared \<open>BaseNode\<close> fields form a record, and
  the variant, with the fields only that variant has, is the datatype \<open>NodeData\<close>.
  The \<open>type\<close> tag and the variant fields are read back through accessor functions, which
  answer \<open>None\<close> where JavaScript would read \<open>undefined\<close> from a variant without the
  field. Optional fields (\<open>f?: T\<close>) are \<open>T option\<close>. Numeric fields (age, weight,
  intensity) are carried as integers; no modelled function reads them.
\<close>

datatype NodeType = T_member | T_preference | T_device | T_document | T_house_rule | T_health

datatype RiskLevel = Low | Medium | High

datatype Visibility = Private | Family | Guarded | Health_only

datatype Role = Parent | Child | Grandparent | Sibling | Caregiver | Other

datatype Gender = Male | Female

datatype AdminLevel = Primary | Secondary

datatype Category = Food | Activity | Cat_other

datatype Sentiment = Likes | Dislikes | Avoids | Loves

datatype DocType = Recipe | Schedule | Note | Doc_list | Project | Financial

datatype Severity = Sev_low | Sev_moderate | Sev_critical

datatype NodeData =
    MemberNode Role "Gender option" "int option" "string list option" "AdminLevel option"
  | PreferenceNode Category Sentiment
  | DeviceNode string "string option"
  | DocumentNode DocType "string option"
  | HealthNode string "Severity option"
  | HouseRuleNode string string string

record FamilyNode =
  n_id :: string
  n_label :: string
  n_riskLevel :: "RiskLevel option"
  n_visibility :: "Visibility option"
  n_isAchievement :: "bool option"
  n_data :: NodeData

fun type_of :: "NodeData \<Rightarrow> NodeType" where
  "type_of (MemberNode r g a h l) = T_member"
| "type_of (PreferenceNode c s) = T_preference"
| "type_of (DeviceNode p os) = T_device"
| "type_of (DocumentNode d u) = T_document"
| "type_of (HealthNode c s) = T_health"
| "type_of (HouseRuleNode t c a) = T_house_rule"

definition n_type :: "FamilyNode \<Rightarrow> NodeType" where
  "n_type node = type_of (n_data node)"

fun role_of :: "NodeData \<Rightarrow> Role option" where
  "role_of (MemberNode r g a h l) = Some r"
| "role_of (PreferenceNode c s) = None"
| "role_of (DeviceNode p os) = None"
| "role_of (DocumentNode d u) = None"
| "role_of (HealthNode c s) = None"
| "role_of (HouseRuleNode t c a) = None"

fun docType_of :: "NodeData \<Rightarrow> DocType option" where
  "docType_of (MemberNode r g a h l) = None"
| "docType_of (PreferenceNode c s) = None"
| "docType_of (DeviceNode p os) = None"
| "docType_of (DocumentNode d u) = Some d"
| "docType_of (HealthNode c s) = None"
| "docType_of (HouseRuleNode t c a) = None"

datatype EdgeRelation =
    parent_of | child_of | spouse_of | sibling_of | grandparent_of
  | has_preference | has_health_condition | caregiver_of | owns_device
  | authored | related_to | installed_on | created_by | applies_to

record Edge =
  e_id :: string
  e_source :: string
  e_target :: string
  e_relation :: EdgeRelation
  e_label :: "string option"
  e_weight :: "int option"

datatype SynapseImpact = Positive | Negative | Neutral

record SynapseEvent =
  s_id :: string
  s_description :: string
  s_impact :: SynapseImpact
  s_intensity :: int
  s_involvedMembers :: "string list"
  s_timestamp :: "string option"

record FamilyGraph =
  nodes :: "FamilyNode list"
  edges :: "Edge list"
  synapseEvents :: "SynapseEvent list option"

section \<open>The visibility gate (src/lib/visibility-gate.ts)\<close>

text \<open>\<open>String.prototype.startsWith\<close>: the string begins with the given prefix.\<close>

definition startsWith :: "string \<Rightarrow> string \<Rightarrow> bool" where
  "startsWith s p = (take (length p) s = p)"

text \<open>
  \<open>findOwner\<close>: the \<open>for\<close> loop over the edges, returning at the first edge that joins the
  node to an id with the member prefix; \<open>null\<close> is \<open>None\<close>.
\<close>

fun findOwner :: "string \<Rightarrow> Edge list \<Rightarrow> string option" where
  "findOwner nodeId [] = None"
| "findOwner nodeId (edge # rest) =
     (if e_target edge = nodeId \<and> startsWith (e_source edge) ''m-'' then Some (e_source edge)
      else if e_source edge = nodeId \<and> startsWith (e_target edge) ''m-'' then Some (e_target edge)
      else findOwner nodeId rest)"

definition isParentOf :: "string \<Rightarrow> string \<Rightarrow> Edge list \<Rightarrow> bool" where
  "isParentOf viewerId ownerId es =
     list_ex (\<lambda>e. e_relation e = parent_of \<and> e_source e = viewerId \<and> e_target e = ownerId) es"

definition isGrandparentOf :: "string \<Rightarrow> string \<Rightarrow> Edge list \<Rightarrow> bool" where
  "isGrandparentOf viewerId ownerId es =
     list_ex (\<lambda>e. e_relation e = grandparent_of \<and> e_source e = viewerId \<and> e_target e = ownerId) es"

definition isCaregiverOf :: "string \<Rightarrow> string \<Rightarrow> Edge list \<Rightarrow> bool" where
  "isCaregiverOf viewerId ownerId es =
     list_ex (\<lambda>e. e_relation e = caregiver_of \<and> e_source e = viewerId \<and> e_target e = ownerId) es"

definition isFinancialDoc :: "FamilyNode \<Rightarrow> bool" where
  "isFinancialDoc node = (n_type node = T_document \<and> docType_of (n_data node) = Some Financial)"

text \<open>
  \<open>viewerRole\<close>: \<open>graph.nodes.find((n) => n.id === viewerId)?.role\<close>. The first node with
  the viewer's id is taken, whatever its variant; a missing node and a node without a
  \<open>role\<close> field both give \<open>undefined\<close>, here \<open>None\<close>.
\<close>

definition viewerRole :: "FamilyNode list \<Rightarrow> string \<Rightarrow> Role option" where
  "viewerRole ns viewerId =
     (case find (\<lambda>n. n_id n = viewerId) ns of
        None \<Rightarrow> None
      | Some viewerNode \<Rightarrow> role_of (n_data viewerNode))"

text \<open>
  JavaScript truthiness of \<open>ownerId\<close> (a string or \<open>null\<close>): \<open>null\<close> and the empty string
  are falsy. \<open>ownerAnd ownerId P\<close> is the source's \<open>ownerId && P(ownerId)\<close>.
\<close>

definition ownerAnd :: "string option \<Rightarrow> (string \<Rightarrow> bool) \<Rightarrow> bool" where
  "ownerAnd ownerId P = (case ownerId of None \<Rightarrow> False | Some oid \<Rightarrow> oid \<noteq> [] \<and> P oid)"

text \<open>
  \<open>healthOnlyVisible\<close> is the body of the \<open>health_only\<close> branch (lines 95 to 112), with
  its trailing clause for a viewer whose role is caregiver.
\<close>

definition healthOnlyVisible :: "Edge list \<Rightarrow> string \<Rightarrow> Role option \<Rightarrow> string option \<Rightarrow> bool" where
  "healthOnlyVisible es viewerId vRole ownerId =
     (case ownerId of
        None \<Rightarrow> False
      | Some oid \<Rightarrow>
          if oid = [] then False
          else if isParentOf viewerId oid es then True
          else if isGrandparentOf viewerId oid es then True
          else if isCaregiverOf viewerId oid es then True
          else if vRole = Some Caregiver then
            (let careTargets =
                   map e_target (filter (\<lambda>e. e_relation e = caregiver_of \<and> e_source e = viewerId) es)
             in if List.member careTargets oid then True else False)
          else False)"

definition guardedVisible :: "Edge list \<Rightarrow> string \<Rightarrow> Role option \<Rightarrow> FamilyNode \<Rightarrow> string option \<Rightarrow> bool" where
  "guardedVisible es viewerId vRole node ownerId =
     (if vRole = Some Caregiver then False
      else if ownerAnd ownerId (\<lambda>oid. isParentOf viewerId oid es) then True
      else if ownerAnd ownerId (\<lambda>oid. isGrandparentOf viewerId oid es) then True
      else if n_riskLevel node = Some High \<and> ownerAnd ownerId (\<lambda>oid. isParentOf oid viewerId es) then True
      else False)"

definition privateVisible :: "Edge list \<Rightarrow> string \<Rightarrow> FamilyNode \<Rightarrow> string option \<Rightarrow> bool" where
  "privateVisible es viewerId node ownerId =
     (if n_riskLevel node = Some High \<and> ownerAnd ownerId (\<lambda>oid. isParentOf viewerId oid es) then True
      else False)"

text \<open>
  \<open>nodeVisible\<close> is the callback of the first \<open>filter\<close> (lines 77 to 139): the chain of
  early returns, in the source's order.
\<close>

definition nodeVisible :: "Edge list \<Rightarrow> string \<Rightarrow> Role option \<Rightarrow> FamilyNode \<Rightarrow> bool" where
  "nodeVisible es viewerId vRole node =
     (if n_isAchievement node = Some True then True
      else if n_type node = T_member then True
      else
        (let visibility = (case n_visibility node of None \<Rightarrow> Family | Some v \<Rightarrow> v) in
         if visibility = Family then True
         else
           (let ownerId = findOwner (n_id node) es in
            if ownerId = Some viewerId then True
            else if visibility = Health_only then healthOnlyVisible es viewerId vRole ownerId
            else if visibility = Guarded then guardedVisible es viewerId vRole node ownerId
            else if visibility = Private then privateVisible es viewerId node ownerId
            else True)))"

text \<open>The callback of the second \<open>filter\<close> (lines 142 to 145).\<close>

definition notCaregiverFinancial :: "Role option \<Rightarrow> FamilyNode \<Rightarrow> bool" where
  "notCaregiverFinancial vRole node =
     (if vRole = Some Caregiver \<and> isFinancialDoc node then False else True)"

definition applyVisibilityGate :: "FamilyGraph \<Rightarrow> string \<Rightarrow> FamilyGraph" where
  "applyVisibilityGate graph viewerId =
     (let vRole = viewerRole (nodes graph) viewerId;
          visibleNodes = filter (nodeVisible (edges graph) viewerId vRole) (nodes graph);
          filteredNodes = filter (notCaregiverFinancial vRole) visibleNodes;
          visibleIds = set (map n_id filteredNodes);
          visibleEdges = filter (\<lambda>e. e_source e \<in> visibleIds \<and> e_target e \<in> visibleIds) (edges graph)
      in \<lparr>nodes = filteredNodes, edges = visibleEdges, synapseEvents = None\<rparr>)"


section \<open>Derived notions used to state the properties\<close>

text \<open>
  The gate without the caregiver-role clause of the \<open>health_only\<close> branch (lines 104 to
  110 removed, everything else as in the source). It is compared with the gate as written.
\<close>

definition healthOnlyVisible_reduced :: "Edge list \<Rightarrow> string \<Rightarrow> string option \<Rightarrow> bool" where
  "healthOnlyVisible_reduced es viewerId ownerId =
     (case ownerId of
        None \<Rightarrow> False
      | Some oid \<Rightarrow>
          if oid = [] then False
          else if isParentOf viewerId oid es then True
          else if isGrandparentOf viewerId oid es then True
          else if isCaregiverOf viewerId oid es then True
          else False)"

definition nodeVisible_reduced :: "Edge list \<Rightarrow> string \<Rightarrow> Role option \<Rightarrow> FamilyNode \<Rightarrow> bool" where
  "nodeVisible_reduced es viewerId vRole node =
     (if n_isAchievement node = Some True then True
      else if n_type node = T_member then True
      else
        (let visibility = (case n_visibility node of None \<Rightarrow> Family | Some v \<Rightarrow> v) in
         if visibility = Family then True
         else
           (let ownerId = findOwner (n_id node) es in
            if ownerId = Some viewerId then True
            else if visibility = Health_only then healthOnlyVisible_reduced es viewerId ownerId
            else if visibility = Guarded then guardedVisible es viewerId vRole node ownerId
            else if visibility = Private then privateVisible es viewerId node ownerId
            else True)))"

definition applyVisibilityGate_reduced :: "FamilyGraph \<Rightarrow> string \<Rightarrow> FamilyGraph" where
  "applyVisibilityGate_reduced graph viewerId =
     (let vRole = viewerRole (nodes graph) viewerId;
          visibleNodes = filter (nodeVisible_reduced (edges graph) viewerId vRole) (nodes graph);
          filteredNodes = filter (notCaregiverFinancial vRole) visibleNodes;
          visibleIds = set (map n_id filteredNodes);
          visibleEdges = filter (\<lambda>e. e_source e \<in> visibleIds \<and> e_target e \<in> visibleIds) (edges graph)
      in \<lparr>nodes = filteredNodes, edges = visibleEdges, synapseEvents = None\<rparr>)"


text \<open>
  \<open>viewerUnlinked\<close>: no edge has the viewer's id as an endpoint. \<open>openToAll\<close>: the nodes
  disclosed by the first three returns of the gate (achievement, member, effective
  visibility \<open>family\<close>).
\<close>

definition viewerUnlinked :: "Edge list \<Rightarrow> string \<Rightarrow> bool" where
  "viewerUnlinked es v = list_all (\<lambda>e. e_source e \<noteq> v \<and> e_target e \<noteq> v) es"

definition openToAll :: "FamilyNode \<Rightarrow> bool" where
  "openToAll n = (n_isAchievement n = Some True \<or> n_type n = T_member \<or>
      (case n_visibility n of None \<Rightarrow> Family | Some x \<Rightarrow> x) = Family)"


text \<open>
  Well-formedness of a graph with respect to the member-id convention:
  \<open>memberEndpointsResolved\<close> says that every edge endpoint with the member prefix is the id
  of a member node of the graph; \<open>viewerIsMember\<close> says that the node the gate looks up
  for the viewer is a member node.
\<close>

definition memberIds :: "FamilyNode list \<Rightarrow> string set" where
  "memberIds ns = set (map n_id (filter (\<lambda>n. n_type n = T_member) ns))"

definition memberEndpointsResolved :: "FamilyGraph \<Rightarrow> bool" where
  "memberEndpointsResolved g =
     list_all (\<lambda>e. (if startsWith (e_source e) ''m-'' then e_source e \<in> memberIds (nodes g) else True) \<and>
                     (if startsWith (e_target e) ''m-'' then e_target e \<in> memberIds (nodes g) else True))
       (edges g)"

definition viewerIsMember :: "FamilyGraph \<Rightarrow> string \<Rightarrow> bool" where
  "viewerIsMember g v =
     (case find (\<lambda>n. n_id n = v) (nodes g) of None \<Rightarrow> False | Some n \<Rightarrow> n_type n = T_member)"


section \<open>The value filter (src/lib/livo/filters.ts)\<close>

datatype RestrictionSource = Src_preference | Src_health

record DietaryRestriction =
  r_memberId :: string
  r_memberLabel :: string
  r_source :: RestrictionSource
  r_label :: string
  r_sentiment :: "Sentiment option"
  r_severity :: "Severity option"

fun category_of :: "NodeData \<Rightarrow> Category option" where
  "category_of (MemberNode r g a h l) = None"
| "category_of (PreferenceNode c s) = Some c"
| "category_of (DeviceNode p os) = None"
| "category_of (DocumentNode d u) = None"
| "category_of (HealthNode c s) = None"
| "category_of (HouseRuleNode t c a) = None"

fun sentiment_of :: "NodeData \<Rightarrow> Sentiment option" where
  "sentiment_of (MemberNode r g a h l) = None"
| "sentiment_of (PreferenceNode c s) = Some s"
| "sentiment_of (DeviceNode p os) = None"
| "sentiment_of (DocumentNode d u) = None"
| "sentiment_of (HealthNode c s) = None"
| "sentiment_of (HouseRuleNode t c a) = None"

text \<open>Both \<open>health\<close> and \<open>house_rule\<close> nodes carry a \<open>condition\<close> string.\<close>

fun condition_of :: "NodeData \<Rightarrow> string option" where
  "condition_of (MemberNode r g a h l) = None"
| "condition_of (PreferenceNode c s) = None"
| "condition_of (DeviceNode p os) = None"
| "condition_of (DocumentNode d u) = None"
| "condition_of (HealthNode c s) = Some c"
| "condition_of (HouseRuleNode t c a) = Some c"

fun severity_of :: "NodeData \<Rightarrow> Severity option" where
  "severity_of (MemberNode r g a h l) = None"
| "severity_of (PreferenceNode c s) = None"
| "severity_of (DeviceNode p os) = None"
| "severity_of (DocumentNode d u) = None"
| "severity_of (HealthNode c s) = s"
| "severity_of (HouseRuleNode t c a) = None"

fun healthTags_of :: "NodeData \<Rightarrow> string list option" where
  "healthTags_of (MemberNode r g a h l) = h"
| "healthTags_of (PreferenceNode c s) = None"
| "healthTags_of (DeviceNode p os) = None"
| "healthTags_of (DocumentNode d u) = None"
| "healthTags_of (HealthNode c s) = None"
| "healthTags_of (HouseRuleNode t c a) = None"

text \<open>
  The regular expression \<open>/diet|salt|sugar|gluten|lactose|allerg|intoleran/i\<close>: \<open>test\<close>
  holds when one of the keywords occurs in the string, letters compared without case.
  Without the \<open>u\<close> flag, case folding never identifies a non-ASCII character with an
  ASCII letter, so folding the ASCII capitals is exact. \<open>test(undefined)\<close> tests the
  string \<open>undefined\<close>.
\<close>

definition lowerAscii :: "char \<Rightarrow> char" where
  "lowerAscii c =
     (case map_of (zip ''ABCDEFGHIJKLMNOPQRSTUVWXYZ'' ''abcdefghijklmnopqrstuvwxyz'') c of
        None \<Rightarrow> c
      | Some d \<Rightarrow> d)"

fun containsStr :: "string \<Rightarrow> string \<Rightarrow> bool" where
  "containsStr [] p = (p = [])"
| "containsStr (c # cs) p = (startsWith (c # cs) p \<or> containsStr cs p)"

definition dietaryKeywords_test :: "string option \<Rightarrow> bool" where
  "dietaryKeywords_test x =
     (let s = map lowerAscii (case x of None \<Rightarrow> ''undefined'' | Some t \<Rightarrow> t)
      in list_ex (containsStr s)
           [''diet'', ''salt'', ''sugar'', ''gluten'', ''lactose'', ''allerg'', ''intoleran''])"

text \<open>
  The three \<open>for\<close> loops of \<open>value_filter\<close> push onto the one array \<open>restrictions\<close>;
  each loop is a left fold whose state is that array, and each step function is the
  loop's body.
\<close>

definition prefStep :: "FamilyNode list \<Rightarrow> DietaryRestriction list \<Rightarrow> Edge \<Rightarrow> DietaryRestriction list" where
  "prefStep ns restrictions edge =
     (let memberId = (if startsWith (e_source edge) ''m-'' then e_source edge else e_target edge);
          prefId = (if startsWith (e_source edge) ''m-'' then e_target edge else e_source edge);
          member = find (\<lambda>n. n_id n = memberId) ns;
          pref = find (\<lambda>n. n_id n = prefId) ns
      in case member of
           None \<Rightarrow> restrictions
         | Some m \<Rightarrow>
             (case pref of
                None \<Rightarrow> restrictions
              | Some p \<Rightarrow>
                  if category_of (n_data p) = Some Food
                  then restrictions @
                    [\<lparr>r_memberId = n_id m, r_memberLabel = n_label m, r_source = Src_preference,
                      r_label = n_label p, r_sentiment = sentiment_of (n_data p),
                      r_severity = None\<rparr>]
                  else restrictions))"

definition healthStep :: "FamilyNode list \<Rightarrow> DietaryRestriction list \<Rightarrow> Edge \<Rightarrow> DietaryRestriction list" where
  "healthStep ns restrictions edge =
     (let memberId = (if startsWith (e_source edge) ''m-'' then e_source edge else e_target edge);
          healthId = (if startsWith (e_source edge) ''m-'' then e_target edge else e_source edge);
          member = find (\<lambda>n. n_id n = memberId) ns;
          health = find (\<lambda>n. n_id n = healthId) ns
      in case member of
           None \<Rightarrow> restrictions
         | Some m \<Rightarrow>
             (case health of
                None \<Rightarrow> restrictions
              | Some h \<Rightarrow>
                  if dietaryKeywords_test (Some (n_label h)) \<or>
                     dietaryKeywords_test (condition_of (n_data h))
                  then restrictions @
                    [\<lparr>r_memberId = n_id m, r_memberLabel = n_label m, r_source = Src_health,
                      r_label = n_label h, r_sentiment = None,
                      r_severity = severity_of (n_data h)\<rparr>]
                  else restrictions))"

definition tagRestriction :: "FamilyNode \<Rightarrow> string \<Rightarrow> DietaryRestriction" where
  "tagRestriction member tag =
     \<lparr>r_memberId = n_id member, r_memberLabel = n_label member, r_source = Src_health,
      r_label = tag, r_sentiment = None, r_severity = None\<rparr>"

definition tagStep :: "FamilyNode \<Rightarrow> DietaryRestriction list \<Rightarrow> string \<Rightarrow> DietaryRestriction list" where
  "tagStep member restrictions tag =
     (let alreadyHas = list_ex (\<lambda>r. r_memberId r = n_id member \<and> r_label r = tag) restrictions
      in if \<not> alreadyHas then restrictions @ [tagRestriction member tag] else restrictions)"

definition memberStep :: "DietaryRestriction list \<Rightarrow> FamilyNode \<Rightarrow> DietaryRestriction list" where
  "memberStep restrictions member =
     (case healthTags_of (n_data member) of
        None \<Rightarrow> restrictions
      | Some tags \<Rightarrow> foldl (tagStep member) restrictions tags)"

text \<open>
  \<open>collected_a_b\<close> is the array after the first two loops: the restrictions of source (a),
  the \<open>has_preference\<close> edges, then those of source (b), the \<open>has_health_condition\<close> edges.
\<close>

definition collected_a_b :: "FamilyNode list \<Rightarrow> Edge list \<Rightarrow> DietaryRestriction list" where
  "collected_a_b ns es =
     (let prefEdges = filter (\<lambda>e. e_relation e = has_preference) es;
          restrictions1 = foldl (prefStep ns) [] prefEdges;
          healthEdges = filter (\<lambda>e. e_relation e = has_health_condition) es
      in foldl (healthStep ns) restrictions1 healthEdges)"

text \<open>
  \<open>value_filter\<close>, as far as its \<open>restrictions\<close> field: the two strings \<open>instruction\<close>
  and \<open>cpNote\<close> of the result are built from that array afterwards and are not modelled.
\<close>

definition value_filter :: "FamilyNode list \<Rightarrow> Edge list \<Rightarrow> DietaryRestriction list" where
  "value_filter ns es =
     (let members = filter (\<lambda>n. n_type n = T_member) ns
      in foldl memberStep (collected_a_b ns es) members)"

section \<open>Example graphs\<close>

text \<open>
  Object literals for the scenarios: \<open>mkNode\<close>, \<open>mkEdge\<close> and \<open>mkGraph\<close> write a node, an
  edge and a graph with the optional fields that the scenarios leave out absent.
\<close>

definition mkNode :: "string \<Rightarrow> string \<Rightarrow> RiskLevel option \<Rightarrow> Visibility option \<Rightarrow> bool option \<Rightarrow> NodeData \<Rightarrow> FamilyNode" where
  "mkNode i l r v a d =
     \<lparr>n_id = i, n_label = l, n_riskLevel = r, n_visibility = v, n_isAchievement = a, n_data = d\<rparr>"

definition mkEdge :: "string \<Rightarrow> string \<Rightarrow> EdgeRelation \<Rightarrow> string \<Rightarrow> Edge" where
  "mkEdge i s r t =
     \<lparr>e_id = i, e_source = s, e_target = t, e_relation = r, e_label = None, e_weight = None\<rparr>"

definition mkGraph :: "FamilyNode list \<Rightarrow> Edge list \<Rightarrow> FamilyGraph" where
  "mkGraph ns es = \<lparr>nodes = ns, edges = es, synapseEvents = None\<rparr>"

definition m_dad :: FamilyNode where
  "m_dad = mkNode ''m-dad'' ''Dad'' None None None (MemberNode Parent None None None None)"
definition m_kid :: FamilyNode where
  "m_kid = mkNode ''m-kid'' ''Kid'' None None None (MemberNode Child None None None None)"
definition m_sis :: FamilyNode where
  "m_sis = mkNode ''m-sis'' ''Sis'' None None None (MemberNode Sibling None None None None)"
definition m_nanny :: FamilyNode where
  "m_nanny = mkNode ''m-nanny'' ''Nanny'' None None None (MemberNode Caregiver None None None None)"
definition d_phone :: FamilyNode where
  "d_phone = mkNode ''d-phone'' ''Phone'' (Some High) (Some Private) None (DeviceNode ''ios'' None)"
definition doc_taxes :: FamilyNode where
  "doc_taxes = mkNode ''doc-taxes'' ''Taxes'' None (Some Guarded) None (DocumentNode Financial None)"
definition doc_trophy :: FamilyNode where
  "doc_trophy = mkNode ''doc-trophy'' ''Trophy'' None (Some Private) (Some True) (DocumentNode Note None)"
definition doc_bank :: FamilyNode where
  "doc_bank = mkNode ''doc-bank'' ''Bank'' None None None (DocumentNode Financial None)"
definition doc_award :: FamilyNode where
  "doc_award = mkNode ''doc-award'' ''Award'' None None (Some True) (DocumentNode Financial None)"
definition d_medal :: FamilyNode where
  "d_medal = mkNode ''d-medal'' ''Medal'' None (Some Guarded) (Some True) (DeviceNode ''watch'' None)"
definition doc_diary :: FamilyNode where
  "doc_diary = mkNode ''doc-diary'' ''Diary'' None (Some Guarded) None (DocumentNode Note None)"
definition doc_prize :: FamilyNode where
  "doc_prize = mkNode ''doc-prize'' ''Prize'' (Some High) (Some Private) (Some True) (DocumentNode Financial None)"
definition h_note :: FamilyNode where
  "h_note = mkNode ''h-note'' ''Checkup'' None (Some Health_only) None (HealthNode ''checkup'' None)"
definition doc_payslip :: FamilyNode where
  "doc_payslip = mkNode ''doc-payslip'' ''Payslip'' None (Some Private) None (DocumentNode Financial None)"

definition g_phone :: FamilyGraph where
  "g_phone = mkGraph [m_dad, m_kid, m_sis, d_phone]
     [mkEdge ''e1'' ''m-kid'' owns_device ''d-phone'', mkEdge ''e2'' ''m-dad'' parent_of ''m-kid'']"
definition g_taxes :: FamilyGraph where
  "g_taxes = mkGraph [m_dad, m_nanny, doc_taxes]
     [mkEdge ''e1'' ''m-dad'' authored ''doc-taxes'', mkEdge ''e2'' ''m-nanny'' caregiver_of ''m-dad'']"
definition g_trophy :: FamilyGraph where
  "g_trophy = mkGraph [m_kid, m_sis, doc_trophy] [mkEdge ''e1'' ''m-kid'' authored ''doc-trophy'']"
definition g_bank :: FamilyGraph where
  "g_bank = mkGraph [m_dad, m_nanny, doc_bank] [mkEdge ''e1'' ''m-dad'' authored ''doc-bank'']"
definition g_award :: FamilyGraph where
  "g_award = mkGraph [m_nanny, m_kid, doc_award] [mkEdge ''e1'' ''m-kid'' authored ''doc-award'']"
definition g_guarded :: FamilyGraph where
  "g_guarded = mkGraph [m_nanny, d_medal, doc_diary] [mkEdge ''e1'' ''m-nanny'' authored ''doc-diary'']"
definition g_prize :: FamilyGraph where
  "g_prize = mkGraph [m_nanny, m_kid, m_sis, doc_prize]
     [mkEdge ''e1'' ''m-kid'' authored ''doc-prize'', mkEdge ''e2'' ''m-nanny'' parent_of ''m-kid'']"
definition g_ghost :: FamilyGraph where
  "g_ghost = mkGraph [m_dad, h_note]
     [mkEdge ''e1'' ''m-ghost'' has_health_condition ''h-note'', mkEdge ''e2'' ''m-dad'' parent_of ''m-ghost'']"
definition g_payslip :: FamilyGraph where
  "g_payslip = mkGraph [m_nanny, doc_payslip] [mkEdge ''e1'' ''m-nanny'' authored ''doc-payslip'']"
definition g_stranger :: FamilyGraph where
  "g_stranger = mkGraph [m_kid, d_phone]
     [mkEdge ''e1'' ''m-kid'' owns_device ''d-phone'', mkEdge ''e2'' ''m-ghost'' parent_of ''m-kid'']"

definition d_tablet :: FamilyNode where
  "d_tablet = mkNode ''m-tablet'' ''Tablet'' (Some Low) (Some Private) None (DeviceNode ''android'' None)"
definition d_app :: FamilyNode where
  "d_app = mkNode ''d-app'' ''Suspicious App'' (Some High) (Some Private) None (DeviceNode ''android'' None)"
definition g_tablet :: FamilyGraph where
  "g_tablet = mkGraph [m_dad, m_sis, d_tablet, d_app]
     [mkEdge ''e1'' ''m-sis'' owns_device ''m-tablet'', mkEdge ''e2'' ''d-app'' installed_on ''m-tablet'',
      mkEdge ''e3'' ''m-dad'' parent_of ''m-tablet'']"

definition m_grandma :: FamilyNode where
  "m_grandma = mkNode ''m-grandma'' ''Grandma'' None None None
     (MemberNode Grandparent None None (Some [''Low-Salt Diet'', ''Naps'']) None)"
definition h_salt :: FamilyNode where
  "h_salt = mkNode ''h-salt'' ''Low-Salt Diet'' None (Some Health_only) None
     (HealthNode ''Hypertension'' (Some Sev_moderate))"
definition m_teen :: FamilyNode where
  "m_teen = mkNode ''m-teen'' ''Teen'' None None None
     (MemberNode Child None None (Some [''No Meat'']) None)"
definition p_nomeat :: FamilyNode where
  "p_nomeat = mkNode ''p-nomeat'' ''No Meat'' None None None (PreferenceNode Food Avoids)"
definition e_grandma_salt :: Edge where
  "e_grandma_salt = mkEdge ''e1'' ''m-grandma'' has_health_condition ''h-salt''"
definition e_teen_nomeat :: Edge where
  "e_teen_nomeat = mkEdge ''e1'' ''m-teen'' has_preference ''p-nomeat''"

text \<open>
  \<open>sameKey i t\<close> is the test of \<open>alreadyHas\<close>: the restriction has member id \<open>i\<close> and
  label \<open>t\<close>. \<open>freshOver base acc\<close>: the array \<open>acc\<close> extends \<open>base\<close> by entries whose
  member id and label no entry of \<open>base\<close> has.
\<close>

definition sameKey :: "string \<Rightarrow> string \<Rightarrow> DietaryRestriction \<Rightarrow> bool" where
  "sameKey i t r = (r_memberId r = i \<and> r_label r = t)"

definition freshOver :: "DietaryRestriction list \<Rightarrow> DietaryRestriction list \<Rightarrow> bool" where
  "freshOver base acc =
     (\<exists>added. acc = base @ added \<and>
        (\<forall>r\<in>set added. \<not> list_ex (sameKey (r_memberId r) (r_label r)) base))"

lemmas ex_defs = mkNode_def mkEdge_def mkGraph_def m_dad_def m_kid_def m_sis_def m_nanny_def
  d_phone_def doc_taxes_def doc_trophy_def doc_bank_def doc_award_def d_medal_def doc_diary_def
  doc_prize_def h_note_def doc_payslip_def g_phone_def g_taxes_def g_trophy_def g_bank_def
  g_award_def g_guarded_def g_prize_def g_ghost_def g_payslip_def g_stranger_def
  d_tablet_def d_app_def g_tablet_def
  m_grandma_def h_salt_def m_teen_def p_nomeat_def e_grandma_salt_def e_teen_nomeat_def

lemmas gate_defs = applyVisibilityGate_def viewerRole_def nodeVisible_def notCaregiverFinancial_def
  healthOnlyVisible_def guardedVisible_def privateVisible_def ownerAnd_def isFinancialDoc_def
  n_type_def isParentOf_def isGrandparentOf_def isCaregiverOf_def startsWith_def Let_def

lemmas vf_defs = value_filter_def collected_a_b_def prefStep_def healthStep_def memberStep_def
  tagStep_def tagRestriction_def dietaryKeywords_test_def lowerAscii_def startsWith_def n_type_def
  Let_def

section \<open>The gate, field by field\<close>

lemma nodes_gate:
  "nodes (applyVisibilityGate g v) =
     filter (notCaregiverFinancial (viewerRole (nodes g) v))
       (filter (nodeVisible (edges g) v (viewerRole (nodes g) v)) (nodes g))"
  by (simp add: applyVisibilityGate_def Let_def)

lemma edges_gate:
  "edges (applyVisibilityGate g v) =
     filter (\<lambda>e. e_source e \<in> n_id ` set (nodes (applyVisibilityGate g v)) \<and>
                 e_target e \<in> n_id ` set (nodes (applyVisibilityGate g v))) (edges g)"
  by (simp add: applyVisibilityGate_def Let_def)

lemma synapse_gate: "synapseEvents (applyVisibilityGate g v) = None"
  by (simp add: applyVisibilityGate_def Let_def)

lemma in_gate_iff:
  "n \<in> set (nodes (applyVisibilityGate g v)) \<longleftrightarrow>
     n \<in> set (nodes g) \<and> nodeVisible (edges g) v (viewerRole (nodes g) v) n \<and>
     notCaregiverFinancial (viewerRole (nodes g) v) n"
  by (auto simp: nodes_gate)

lemma findOwner_prefix: "findOwner nid es = Some oid \<Longrightarrow> startsWith oid ''m-''"
  by (induction es) (auto split: if_splits)

lemma startsWith_nonempty: "startsWith oid ''m-'' \<Longrightarrow> oid \<noteq> []"
  by (auto simp: startsWith_def)

lemma findOwner_endpoint:
  "findOwner nid es = Some oid \<Longrightarrow> \<exists>e\<in>set es. e_source e = oid \<or> e_target e = oid"
  by (induction es) (auto split: if_splits)

lemma viewerRole_absent: "v \<notin> set (map n_id ns) \<Longrightarrow> viewerRole ns v = None"
proof -
  assume "v \<notin> set (map n_id ns)"
  then have "find (\<lambda>n. n_id n = v) ns = None" by (auto simp: find_None_iff)
  then show ?thesis by (simp add: viewerRole_def)
qed

lemma unlinked_not_owner: "viewerUnlinked es v \<Longrightarrow> findOwner nid es \<noteq> Some v"
  by (auto simp: viewerUnlinked_def list_all_iff dest!: findOwner_endpoint)

lemma unlinked_rel:
  "viewerUnlinked es v \<Longrightarrow> \<not> isParentOf v x es \<and> \<not> isParentOf x v es \<and>
     \<not> isGrandparentOf v x es \<and> \<not> isCaregiverOf v x es"
  by (auto simp: viewerUnlinked_def list_all_iff isParentOf_def isGrandparentOf_def
        isCaregiverOf_def list_ex_iff)

lemma unlinked_nodeVisible:
  assumes "viewerUnlinked es v"
  shows "nodeVisible es v None n = openToAll n"
  using unlinked_not_owner[OF assms] unlinked_rel[OF assms]
  by (cases "n_visibility n"; cases "the (n_visibility n)")
     (auto simp: nodeVisible_def openToAll_def healthOnlyVisible_def guardedVisible_def
        privateVisible_def ownerAnd_def Let_def split: option.splits)

lemma careTargets_iff:
  "List.member (map e_target (filter (\<lambda>e. e_relation e = caregiver_of \<and> e_source e = v) es)) oid
     = isCaregiverOf v oid es"
  by (auto simp: isCaregiverOf_def list_ex_iff)

lemma healthOnly_reduced: "healthOnlyVisible es v r ownerId = healthOnlyVisible_reduced es v ownerId"
proof (cases ownerId)
  case None
  then show ?thesis by (simp add: healthOnlyVisible_def healthOnlyVisible_reduced_def)
next
  case (Some oid)
  show ?thesis
    unfolding healthOnlyVisible_def healthOnlyVisible_reduced_def Let_def careTargets_iff Some
    by simp
qed

lemma nodeVisible_reduced_eq: "nodeVisible_reduced es v r = nodeVisible es v r"
  by (simp add: fun_eq_iff nodeVisible_def nodeVisible_reduced_def healthOnly_reduced)

lemma find_filter_keep: "find P xs = Some x \<Longrightarrow> Q x \<Longrightarrow> find P (filter Q xs) = Some x"
  by (induction xs) (auto split: if_splits)

lemma member_not_financial: "n_type n = T_member \<Longrightarrow> \<not> isFinancialDoc n"
  by (simp add: isFinancialDoc_def)

lemma member_kept:
  "n \<in> set (nodes g) \<Longrightarrow> n_type n = T_member \<Longrightarrow> n \<in> set (nodes (applyVisibilityGate g v))"
  by (simp add: in_gate_iff nodeVisible_def notCaregiverFinancial_def member_not_financial)

lemma memberIds_kept:
  assumes "x \<in> memberIds (nodes g)"
  shows "x \<in> n_id ` set (nodes (applyVisibilityGate g v))"
proof -
  from assms obtain n where "n \<in> set (nodes g)" "n_type n = T_member" "n_id n = x"
    by (auto simp: memberIds_def)
  then show ?thesis using member_kept[of n g v] by (auto simp: image_iff)
qed

lemma viewer_found:
  assumes "viewerIsMember g v"
  obtains m where "find (\<lambda>n. n_id n = v) (nodes g) = Some m" "n_type m = T_member"
    "n_id m = v" "m \<in> set (nodes g)"
proof -
  from assms obtain m where f: "find (\<lambda>n. n_id n = v) (nodes g) = Some m" and t: "n_type m = T_member"
    by (auto simp: viewerIsMember_def split: option.splits)
  from f have "n_id m = v" "m \<in> set (nodes g)"
    by (auto simp: find_Some_iff)
  with f t that show ?thesis by blast
qed

lemma viewerRole_gate:
  assumes "viewerIsMember g v"
  shows "viewerRole (nodes (applyVisibilityGate g v)) v = viewerRole (nodes g) v"
proof -
  obtain m where m: "find (\<lambda>n. n_id n = v) (nodes g) = Some m" "n_type m = T_member"
    "m \<in> set (nodes g)"
    using viewer_found[OF assms] by metis
  have vis: "nodeVisible (edges g) v (viewerRole (nodes g) v) m"
    and nf: "notCaregiverFinancial (viewerRole (nodes g) v) m"
    using member_kept[OF m(3) m(2), of v] by (simp_all add: in_gate_iff)
  have "find (\<lambda>n. n_id n = v) (nodes (applyVisibilityGate g v)) = Some m"
    unfolding nodes_gate
    by (intro find_filter_keep m(1) vis nf)
  with m(1) show ?thesis by (simp add: viewerRole_def)
qed

lemma findOwner_filter:
  assumes "\<And>e. e \<in> set es \<Longrightarrow>
             (e_target e = nid \<and> startsWith (e_source e) ''m-'') \<or>
             (e_source e = nid \<and> startsWith (e_target e) ''m-'') \<Longrightarrow> K e"
  shows "findOwner nid (filter K es) = findOwner nid es"
  using assms by (induction es) auto

lemma findOwner_Some_edge:
  "findOwner nid es = Some oid \<Longrightarrow>
     \<exists>e\<in>set es. startsWith oid ''m-'' \<and> (e_source e = oid \<or> e_target e = oid)"
  by (induction es) (auto split: if_splits)

lemma rel_filter:
  assumes "a \<in> S" "b \<in> S"
  shows "list_ex (\<lambda>e. e_relation e = r \<and> e_source e = a \<and> e_target e = b)
           (filter (\<lambda>e. e_source e \<in> S \<and> e_target e \<in> S) es)
         = list_ex (\<lambda>e. e_relation e = r \<and> e_source e = a \<and> e_target e = b) es"
  using assms by (auto simp: list_ex_iff)

lemma resolved_endpoint:
  assumes "memberEndpointsResolved g" "e \<in> set (edges g)"
  shows "startsWith (e_source e) ''m-'' \<Longrightarrow> e_source e \<in> memberIds (nodes g)"
    and "startsWith (e_target e) ''m-'' \<Longrightarrow> e_target e \<in> memberIds (nodes g)"
  using assms by (auto simp: memberEndpointsResolved_def list_all_iff split: if_splits)

lemma nodeVisible_gate:
  assumes wf: "memberEndpointsResolved g" and vm: "viewerIsMember g v"
    and n: "n \<in> set (nodes (applyVisibilityGate g v))"
  shows "nodeVisible (edges (applyVisibilityGate g v)) v r n = nodeVisible (edges g) v r n"
proof -
  define S where "S = n_id ` set (nodes (applyVisibilityGate g v))"
  define K :: "Edge \<Rightarrow> bool" where "K = (\<lambda>e. e_source e \<in> S \<and> e_target e \<in> S)"
  have es': "edges (applyVisibilityGate g v) = filter K (edges g)"
    by (subst edges_gate) (simp add: K_def S_def)
  have nS: "n_id n \<in> S" using n by (simp add: S_def)
  have vS: "v \<in> S"
  proof -
    obtain m where "n_type m = T_member" "n_id m = v" "m \<in> set (nodes g)"
      using viewer_found[OF vm] by metis
    then show ?thesis using member_kept[of m g v] by (auto simp: S_def image_iff)
  qed
  have pS: "x \<in> S" if "e \<in> set (edges g)" "startsWith x ''m-''" "e_source e = x \<or> e_target e = x" for e x
    using that resolved_endpoint[OF wf that(1)] memberIds_kept[of x g v] by (auto simp: S_def)
  have own: "findOwner (n_id n) (filter K (edges g)) = findOwner (n_id n) (edges g)"
  proof (rule findOwner_filter)
    fix e assume e: "e \<in> set (edges g)"
      and "(e_target e = n_id n \<and> startsWith (e_source e) ''m-'') \<or>
           (e_source e = n_id n \<and> startsWith (e_target e) ''m-'')"
    then show "K e" using nS pS[OF e] by (auto simp: K_def)
  qed
  show ?thesis
  proof (cases "findOwner (n_id n) (edges g)")
    case None
    then show ?thesis
      by (simp add: es' own nodeVisible_def healthOnlyVisible_def guardedVisible_def
            privateVisible_def ownerAnd_def)
  next
    case (Some oid)
    then have oS: "oid \<in> S" using findOwner_Some_edge[OF Some] pS by blast
    have rels: "isParentOf v oid (filter K (edges g)) = isParentOf v oid (edges g)"
      "isParentOf oid v (filter K (edges g)) = isParentOf oid v (edges g)"
      "isGrandparentOf v oid (filter K (edges g)) = isGrandparentOf v oid (edges g)"
      "isCaregiverOf v oid (filter K (edges g)) = isCaregiverOf v oid (edges g)"
      unfolding isParentOf_def isGrandparentOf_def isCaregiverOf_def K_def
      by (simp_all only: rel_filter[OF vS oS] rel_filter[OF oS vS])
    show ?thesis
      by (simp add: es' own Some nodeVisible_def healthOnly_reduced healthOnlyVisible_reduced_def
            guardedVisible_def privateVisible_def ownerAnd_def rels)
  qed
qed

section \<open>Disclosure rules of the gate\<close>

text \<open>
  C1. Achievement universality. As stated (every achievement node is disclosed to every
  viewer, the caregiver post-filter included) the property fails: an achievement that is
  a financial document is removed by the second filter when the viewer's role is caregiver.
\<close>

theorem achievement_financial_counterexample:
  "doc_award \<in> set (nodes g_award) \<and> n_isAchievement doc_award = Some True \<and>
   viewerRole (nodes g_award) ''m-nanny'' = Some Caregiver \<and>
   doc_award \<notin> set (nodes (applyVisibilityGate g_award ''m-nanny''))"
  by (simp add: ex_defs gate_defs)

text \<open>
  C1, amended. A node of the graph with \<open>isAchievement = true\<close> is in the node list of
  the gate's output, whatever its visibility, risk level and type, exactly when it is
  not the case that the viewer's role is caregiver and the node is a financial document.
\<close>

theorem achievement_disclosure:
  assumes "n \<in> set (nodes g)" and "n_isAchievement n = Some True"
  shows "n \<in> set (nodes (applyVisibilityGate g v)) \<longleftrightarrow>
         \<not> (viewerRole (nodes g) v = Some Caregiver \<and> isFinancialDoc n)"
  using assms by (simp add: in_gate_iff nodeVisible_def notCaregiverFinancial_def)

theorem achievement_disclosure_witness:
  "doc_trophy \<in> set (nodes g_trophy) \<and> n_isAchievement doc_trophy = Some True \<and>
   n_visibility doc_trophy = Some Private \<and>
   doc_trophy \<in> set (nodes (applyVisibilityGate g_trophy ''m-sis''))"
proof -
  have h1: "doc_trophy \<in> set (nodes g_trophy)" by (simp add: ex_defs)
  have h2: "n_isAchievement doc_trophy = Some True" by (simp add: ex_defs)
  have h3: "\<not> isFinancialDoc doc_trophy" by (simp add: ex_defs isFinancialDoc_def)
  have h4: "n_visibility doc_trophy = Some Private" by (simp add: ex_defs)
  from achievement_disclosure[OF h1 h2, of "''m-sis''"] h3
  have "doc_trophy \<in> set (nodes (applyVisibilityGate g_trophy ''m-sis''))" by simp
  with h1 h2 h4 show ?thesis by simp
qed

text \<open>
  C2. Guarded caregiver exclusion. As stated (a guarded node is never disclosed to a
  caregiver viewer, also when the viewer owns it or it is an achievement) the property
  fails: the achievement return and the owner return both come before the guarded branch.
\<close>

theorem guarded_caregiver_counterexample:
  "viewerRole (nodes g_guarded) ''m-nanny'' = Some Caregiver \<and>
   n_visibility d_medal = Some Guarded \<and> n_isAchievement d_medal = Some True \<and>
   d_medal \<in> set (nodes (applyVisibilityGate g_guarded ''m-nanny'')) \<and>
   n_visibility doc_diary = Some Guarded \<and>
   findOwner (n_id doc_diary) (edges g_guarded) = Some ''m-nanny'' \<and>
   doc_diary \<in> set (nodes (applyVisibilityGate g_guarded ''m-nanny''))"
  by (simp add: ex_defs gate_defs)

text \<open>
  C2, amended. When the viewer's role is caregiver, a node with visibility \<open>guarded\<close>
  that is not an achievement, not a member node and whose resolved owner is not the
  viewer is absent from the node list of the gate's output.
\<close>

theorem guarded_hidden_from_caregiver:
  assumes "viewerRole (nodes g) v = Some Caregiver" and "n_visibility n = Some Guarded"
    and "n_isAchievement n \<noteq> Some True" and "n_type n \<noteq> T_member"
    and "findOwner (n_id n) (edges g) \<noteq> Some v"
  shows "n \<notin> set (nodes (applyVisibilityGate g v))"
  using assms by (simp add: in_gate_iff nodeVisible_def guardedVisible_def)

theorem guarded_hidden_from_caregiver_witness:
  "viewerRole (nodes g_taxes) ''m-nanny'' = Some Caregiver \<and>
   n_visibility doc_taxes = Some Guarded \<and> n_isAchievement doc_taxes \<noteq> Some True \<and>
   n_type doc_taxes \<noteq> T_member \<and> findOwner (n_id doc_taxes) (edges g_taxes) \<noteq> Some ''m-nanny'' \<and>
   doc_taxes \<in> set (nodes g_taxes) \<and>
   doc_taxes \<notin> set (nodes (applyVisibilityGate g_taxes ''m-nanny''))"
proof -
  have h1: "viewerRole (nodes g_taxes) ''m-nanny'' = Some Caregiver"
    by (simp add: ex_defs viewerRole_def)
  have h2: "n_visibility doc_taxes = Some Guarded" by (simp add: ex_defs)
  have h3: "n_isAchievement doc_taxes \<noteq> Some True" by (simp add: ex_defs)
  have h4: "n_type doc_taxes \<noteq> T_member" by (simp add: ex_defs n_type_def)
  have h5: "findOwner (n_id doc_taxes) (edges g_taxes) \<noteq> Some ''m-nanny''"
    by (simp add: ex_defs startsWith_def)
  have h6: "doc_taxes \<in> set (nodes g_taxes)" by (simp add: ex_defs)
  from guarded_hidden_from_caregiver[OF h1 h2 h3 h4 h5] h1 h2 h3 h4 h5 h6
  show ?thesis by simp
qed

text \<open>
  C3. Financial document caregiver exclusion. When the viewer's role is caregiver, no
  node of type \<open>document\<close> with docType \<open>financial\<close> is in the node list of the gate's
  output, whatever the per-node rules decide.
\<close>

theorem financial_hidden_from_caregiver:
  assumes "viewerRole (nodes g) v = Some Caregiver" and "n_type n = T_document"
    and "docType_of (n_data n) = Some Financial"
  shows "n \<notin> set (nodes (applyVisibilityGate g v))"
  using assms by (simp add: in_gate_iff notCaregiverFinancial_def isFinancialDoc_def)

theorem financial_hidden_from_caregiver_witness:
  "viewerRole (nodes g_bank) ''m-nanny'' = Some Caregiver \<and> n_type doc_bank = T_document \<and>
   docType_of (n_data doc_bank) = Some Financial \<and> doc_bank \<in> set (nodes g_bank) \<and>
   nodeVisible (edges g_bank) ''m-nanny'' (Some Caregiver) doc_bank \<and>
   doc_bank \<notin> set (nodes (applyVisibilityGate g_bank ''m-nanny''))"
proof -
  have h1: "viewerRole (nodes g_bank) ''m-nanny'' = Some Caregiver"
    by (simp add: ex_defs viewerRole_def)
  have h2: "n_type doc_bank = T_document" by (simp add: ex_defs n_type_def)
  have h3: "docType_of (n_data doc_bank) = Some Financial" by (simp add: ex_defs)
  have h4: "doc_bank \<in> set (nodes g_bank)" by (simp add: ex_defs)
  have h5: "nodeVisible (edges g_bank) ''m-nanny'' (Some Caregiver) doc_bank"
    by (simp add: ex_defs nodeVisible_def n_type_def)
  from financial_hidden_from_caregiver[OF h1 h2 h3] h1 h2 h3 h4 h5 show ?thesis by simp
qed

text \<open>
  C4. Private safety override. As stated the property fails in both halves: a parent
  whose role is caregiver does not see a child's private high-risk financial document,
  and an unrelated viewer does see a private high-risk node that is an achievement.
\<close>

theorem private_override_counterexample:
  "doc_prize \<in> set (nodes g_prize) \<and> n_visibility doc_prize = Some Private \<and>
   n_riskLevel doc_prize = Some High \<and>
   findOwner (n_id doc_prize) (edges g_prize) = Some ''m-kid'' \<and>
   isParentOf ''m-nanny'' ''m-kid'' (edges g_prize) \<and>
   doc_prize \<notin> set (nodes (applyVisibilityGate g_prize ''m-nanny'')) \<and>
   ''m-sis'' \<noteq> ''m-kid'' \<and> \<not> isParentOf ''m-sis'' ''m-kid'' (edges g_prize) \<and>
   doc_prize \<in> set (nodes (applyVisibilityGate g_prize ''m-sis''))"
  by (simp add: ex_defs gate_defs)

text \<open>
  C4, amended. Let \<open>n\<close> be a node of the graph with visibility \<open>private\<close> and risk level
  \<open>high\<close> whose resolved owner is \<open>c\<close>, and let \<open>p\<close> have a \<open>parent_of\<close> edge to \<open>c\<close>.
  Then the gate for \<open>p\<close> discloses \<open>n\<close>, unless the role of \<open>p\<close> is caregiver and \<open>n\<close>
  is a financial document; and the gate for a viewer \<open>u\<close> that is not \<open>c\<close> and has no
  \<open>parent_of\<close> edge to \<open>c\<close> does not disclose \<open>n\<close>, provided \<open>n\<close> is neither an
  achievement nor a member node.
\<close>

theorem private_safety_override:
  assumes "n \<in> set (nodes g)" and "n_visibility n = Some Private"
    and "n_riskLevel n = Some High" and "findOwner (n_id n) (edges g) = Some c"
    and "isParentOf p c (edges g)"
  shows "(\<not> (viewerRole (nodes g) p = Some Caregiver \<and> isFinancialDoc n) \<longrightarrow>
            n \<in> set (nodes (applyVisibilityGate g p))) \<and>
         (u \<noteq> c \<and> \<not> isParentOf u c (edges g) \<and> n_isAchievement n \<noteq> Some True \<and>
            n_type n \<noteq> T_member \<longrightarrow>
            n \<notin> set (nodes (applyVisibilityGate g u)))"
  using assms findOwner_prefix[OF assms(4), THEN startsWith_nonempty]
  by (auto simp add: in_gate_iff nodeVisible_def privateVisible_def ownerAnd_def
        notCaregiverFinancial_def)

theorem private_safety_override_witness:
  "d_phone \<in> set (nodes g_phone) \<and> n_visibility d_phone = Some Private \<and>
   n_riskLevel d_phone = Some High \<and>
   findOwner (n_id d_phone) (edges g_phone) = Some ''m-kid'' \<and>
   isParentOf ''m-dad'' ''m-kid'' (edges g_phone) \<and>
   d_phone \<in> set (nodes (applyVisibilityGate g_phone ''m-dad'')) \<and>
   ''m-sis'' \<noteq> ''m-kid'' \<and> \<not> isParentOf ''m-sis'' ''m-kid'' (edges g_phone) \<and>
   d_phone \<notin> set (nodes (applyVisibilityGate g_phone ''m-sis''))"
proof -
  have h1: "d_phone \<in> set (nodes g_phone)" by (simp add: ex_defs)
  have h2: "n_visibility d_phone = Some Private" by (simp add: ex_defs)
  have h3: "n_riskLevel d_phone = Some High" by (simp add: ex_defs)
  have h4: "findOwner (n_id d_phone) (edges g_phone) = Some ''m-kid''"
    by (simp add: ex_defs startsWith_def)
  have h5: "isParentOf ''m-dad'' ''m-kid'' (edges g_phone)"
    by (simp add: ex_defs isParentOf_def)
  have h6: "\<not> isFinancialDoc d_phone" by (simp add: ex_defs isFinancialDoc_def n_type_def)
  have h7: "''m-sis'' \<noteq> ''m-kid'' \<and> \<not> isParentOf ''m-sis'' ''m-kid'' (edges g_phone)"
    by (simp add: ex_defs isParentOf_def)
  have h8: "n_isAchievement d_phone \<noteq> Some True \<and> n_type d_phone \<noteq> T_member"
    by (simp add: ex_defs n_type_def)
  from private_safety_override[OF h1 h2 h3 h4 h5, of "''m-sis''"] h6 h7 h8
  have "d_phone \<in> set (nodes (applyVisibilityGate g_phone ''m-dad'')) \<and>
        d_phone \<notin> set (nodes (applyVisibilityGate g_phone ''m-sis''))"
    by blast
  with h1 h2 h3 h4 h5 h7 show ?thesis by simp
qed

text \<open>
  C6. Owner self-visibility. As stated (every non-member node is disclosed to its
  resolved owner, financial documents owned by a caregiver-role member included) the
  property fails: the second filter removes a financial document from a caregiver's
  view even when the caregiver owns it.
\<close>

theorem owner_caregiver_counterexample:
  "doc_payslip \<in> set (nodes g_payslip) \<and> n_type doc_payslip \<noteq> T_member \<and>
   findOwner (n_id doc_payslip) (edges g_payslip) = Some ''m-nanny'' \<and>
   doc_payslip \<notin> set (nodes (applyVisibilityGate g_payslip ''m-nanny''))"
  by (simp add: ex_defs gate_defs)

text \<open>
  C6, amended. A non-member node of the graph whose owner resolves to \<open>o\<close> is in the node
  list of the gate's output for viewer \<open>o\<close> exactly when it is not the case that the role
  of \<open>o\<close> is caregiver and the node is a financial document.
\<close>

theorem owner_self_visibility:
  assumes "n \<in> set (nodes g)" and "n_type n \<noteq> T_member"
    and "findOwner (n_id n) (edges g) = Some oid"
  shows "n \<in> set (nodes (applyVisibilityGate g oid)) \<longleftrightarrow>
         \<not> (viewerRole (nodes g) oid = Some Caregiver \<and> isFinancialDoc n)"
  using assms by (simp add: in_gate_iff nodeVisible_def notCaregiverFinancial_def Let_def)

theorem owner_self_visibility_witness:
  "d_phone \<in> set (nodes g_phone) \<and> n_type d_phone \<noteq> T_member \<and>
   findOwner (n_id d_phone) (edges g_phone) = Some ''m-kid'' \<and>
   d_phone \<in> set (nodes (applyVisibilityGate g_phone ''m-kid''))"
proof -
  have h1: "d_phone \<in> set (nodes g_phone)" by (simp add: ex_defs)
  have h2: "n_type d_phone \<noteq> T_member" by (simp add: ex_defs n_type_def)
  have h3: "findOwner (n_id d_phone) (edges g_phone) = Some ''m-kid''"
    by (simp add: ex_defs startsWith_def)
  have h4: "\<not> isFinancialDoc d_phone" by (simp add: ex_defs isFinancialDoc_def n_type_def)
  from owner_self_visibility[OF h1 h2 h3] h4
  have "d_phone \<in> set (nodes (applyVisibilityGate g_phone ''m-kid''))" by simp
  with h1 h2 h3 show ?thesis by simp
qed

text \<open>
  C7. Unknown viewer. The gate is a total function with no failing branch, so it returns
  for every viewer id. As stated (for a viewer id that is no node's id the output holds
  exactly the achievement, member and family-visible nodes) the property fails: the
  ownership and parent checks read the edges only, and an edge may name an id that is
  no node's.
\<close>

theorem unknown_viewer_counterexample:
  "''m-ghost'' \<notin> set (map n_id (nodes g_stranger)) \<and>
   n_isAchievement d_phone \<noteq> Some True \<and> n_type d_phone \<noteq> T_member \<and>
   n_visibility d_phone = Some Private \<and>
   d_phone \<in> set (nodes (applyVisibilityGate g_stranger ''m-ghost''))"
  by (simp add: ex_defs gate_defs)

text \<open>
  C7, amended. For a viewer id that is the id of no node and the endpoint of no edge of
  the graph, the node list of the gate's output consists exactly of the nodes that are
  achievements, member nodes, or have effective visibility \<open>family\<close>, in the graph's order.
\<close>

theorem unknown_viewer_nodes:
  assumes "v \<notin> set (map n_id (nodes g))" and "viewerUnlinked (edges g) v"
  shows "nodes (applyVisibilityGate g v) = filter openToAll (nodes g)"
proof -
  have r: "viewerRole (nodes g) v = None" using assms(1) by (rule viewerRole_absent)
  have "notCaregiverFinancial None = (\<lambda>n. True)"
    by (simp add: notCaregiverFinancial_def fun_eq_iff)
  with r show ?thesis
    by (simp add: nodes_gate unlinked_nodeVisible[OF assms(2)] cong: filter_cong)
qed

theorem unknown_viewer_nodes_witness:
  "''m-stranger'' \<notin> set (map n_id (nodes g_phone)) \<and>
   viewerUnlinked (edges g_phone) ''m-stranger'' \<and>
   nodes (applyVisibilityGate g_phone ''m-stranger'') = [m_dad, m_kid, m_sis]"
proof -
  have h1: "''m-stranger'' \<notin> set (map n_id (nodes g_phone))" by (simp add: ex_defs)
  have h2: "viewerUnlinked (edges g_phone) ''m-stranger''"
    by (simp add: ex_defs viewerUnlinked_def)
  have "filter openToAll (nodes g_phone) = [m_dad, m_kid, m_sis]"
    by (simp add: ex_defs openToAll_def n_type_def)
  with unknown_viewer_nodes[OF h1 h2] h1 h2 show ?thesis by simp
qed

text \<open>
  C8. Edge consistency. Every edge of the gate's output has its source and its target
  among the ids of the output's nodes.
\<close>

theorem edge_consistency:
  assumes "e \<in> set (edges (applyVisibilityGate g v))"
  shows "e_source e \<in> set (map n_id (nodes (applyVisibilityGate g v))) \<and>
         e_target e \<in> set (map n_id (nodes (applyVisibilityGate g v)))"
  using assms by (subst (asm) edges_gate) simp

theorem edge_consistency_witness:
  "mkEdge ''e1'' ''m-kid'' owns_device ''d-phone'' \<in> set (edges (applyVisibilityGate g_phone ''m-dad'')) \<and>
   ''m-kid'' \<in> set (map n_id (nodes (applyVisibilityGate g_phone ''m-dad''))) \<and>
   ''d-phone'' \<in> set (map n_id (nodes (applyVisibilityGate g_phone ''m-dad'')))"
proof -
  have n: "nodes (applyVisibilityGate g_phone ''m-dad'') = [m_dad, m_kid, m_sis, d_phone]"
    by (simp add: ex_defs gate_defs)
  have h: "mkEdge ''e1'' ''m-kid'' owns_device ''d-phone''
             \<in> set (edges (applyVisibilityGate g_phone ''m-dad''))"
    by (subst edges_gate, unfold n) (simp add: ex_defs)
  from edge_consistency[OF h] h show ?thesis by (simp add: mkEdge_def)
qed

section \<open>Idempotence and the redundant clause\<close>

text \<open>
  C5. Idempotence. As stated (for every graph, graphs with dangling edges included) the
  property fails: the first pass drops an edge whose endpoint is no node, and with the
  edge gone the second pass no longer finds the owner it found before.
\<close>

theorem gate_idempotence_counterexample:
  "applyVisibilityGate (applyVisibilityGate g_ghost ''m-dad'') ''m-dad''
     \<noteq> applyVisibilityGate g_ghost ''m-dad''"
  by (simp add: ex_defs gate_defs)

text \<open>
  Dangling edges are not the only cause. In \<open>g_tablet\<close> every edge endpoint is the id
  of a node and the node ids are distinct, but a device carries an id with the member
  prefix: the first pass hides that device and with it the edges that made the viewer a
  parent of an owner, and the second pass hides the node those edges had disclosed.
\<close>

lemma idempotence_fails_without_dangling_edges:
  "list_all (\<lambda>e. e_source e \<in> set (map n_id (nodes g_tablet)) \<and>
                  e_target e \<in> set (map n_id (nodes g_tablet))) (edges g_tablet) \<and>
   distinct (map n_id (nodes g_tablet)) \<and>
   nodes (applyVisibilityGate g_tablet ''m-dad'') = [m_dad, m_sis, d_app] \<and>
   nodes (applyVisibilityGate (applyVisibilityGate g_tablet ''m-dad'') ''m-dad'') = [m_dad, m_sis]"
  by (simp add: ex_defs gate_defs)

text \<open>
  C5, amended. The gate is idempotent on every graph in which each edge endpoint with
  the member prefix is the id of a member node, for every viewer whose looked-up node is
  a member node: applying the gate to its own output for the same viewer returns that
  output.
\<close>

theorem gate_idempotent_wellformed:
  assumes wf: "memberEndpointsResolved g" and vm: "viewerIsMember g v"
  shows "applyVisibilityGate (applyVisibilityGate g v) v = applyVisibilityGate g v"
proof -
  let ?g' = "applyVisibilityGate g v"
  let ?r = "viewerRole (nodes g) v"
  let ?K = "\<lambda>e::Edge. e_source e \<in> n_id ` set (nodes ?g') \<and> e_target e \<in> n_id ` set (nodes ?g')"
  have role: "viewerRole (nodes ?g') v = ?r" by (rule viewerRole_gate[OF vm])
  have keep: "nodeVisible (edges ?g') v ?r n \<and> notCaregiverFinancial ?r n"
    if "n \<in> set (nodes ?g')" for n
    using that nodeVisible_gate[OF wf vm that, of ?r] by (simp add: in_gate_iff)
  have ns: "nodes (applyVisibilityGate ?g' v) = nodes ?g'"
    by (subst nodes_gate) (simp add: role keep)
  have e1: "edges (applyVisibilityGate ?g' v) = filter ?K (edges ?g')"
    by (subst edges_gate) (simp add: ns)
  have e2: "edges ?g' = filter ?K (edges g)" by (rule edges_gate)
  have "filter ?K (edges ?g') = edges ?g'"
    by (subst (1 2) e2) simp
  with e1 have es: "edges (applyVisibilityGate ?g' v) = edges ?g'" by simp
  show ?thesis
    by (rule FamilyGraph.equality) (simp_all add: ns es synapse_gate)
qed

theorem gate_idempotent_wellformed_witness:
  "memberEndpointsResolved g_phone \<and> viewerIsMember g_phone ''m-dad'' \<and>
   applyVisibilityGate (applyVisibilityGate g_phone ''m-dad'') ''m-dad''
     = applyVisibilityGate g_phone ''m-dad''"
proof -
  have h1: "memberEndpointsResolved g_phone"
    by (simp add: memberEndpointsResolved_def memberIds_def ex_defs startsWith_def n_type_def)
  have h2: "viewerIsMember g_phone ''m-dad''"
    by (simp add: viewerIsMember_def ex_defs n_type_def)
  from gate_idempotent_wellformed[OF h1 h2] h1 h2 show ?thesis by simp
qed

text \<open>
  C10. The caregiver-role clause of the \<open>health_only\<close> branch is redundant: the gate
  without the clause is the same function as the gate as written.
\<close>

theorem caregiver_clause_redundant: "applyVisibilityGate_reduced = applyVisibilityGate"
  by (simp add: fun_eq_iff applyVisibilityGate_def applyVisibilityGate_reduced_def
        nodeVisible_reduced_eq)

section \<open>Deduplication of health tags in the value filter\<close>

lemma tagStep_extends:
  "\<exists>xs. tagStep m rs t = rs @ xs \<and>
        (\<forall>r\<in>set xs. sameKey (n_id m) t r \<and> \<not> list_ex (sameKey (n_id m) t) rs)"
  by (auto simp: tagStep_def tagRestriction_def sameKey_def Let_def list_ex_iff)

lemma tagStep_covers: "list_ex (sameKey (n_id m) t) (tagStep m rs t)"
  by (auto simp: tagStep_def tagRestriction_def sameKey_def Let_def list_ex_iff)

lemma freshOver_refl: "freshOver base base"
  by (simp add: freshOver_def)

lemma tagStep_fresh:
  assumes "freshOver base acc"
  shows "freshOver base (tagStep m acc t)"
proof -
  from assms obtain added where a: "acc = base @ added"
    and f: "\<forall>r\<in>set added. \<not> list_ex (sameKey (r_memberId r) (r_label r)) base"
    by (auto simp: freshOver_def)
  obtain xs where x: "tagStep m acc t = acc @ xs"
    and k: "\<forall>r\<in>set xs. sameKey (n_id m) t r \<and> \<not> list_ex (sameKey (n_id m) t) acc"
    using tagStep_extends by blast
  have "\<forall>r\<in>set (added @ xs). \<not> list_ex (sameKey (r_memberId r) (r_label r)) base"
    using f k a by (auto simp: sameKey_def list_ex_iff)
  moreover have "tagStep m acc t = base @ (added @ xs)" using a x by simp
  ultimately show ?thesis unfolding freshOver_def by blast
qed

lemma foldl_tagStep_fresh:
  "freshOver base acc \<Longrightarrow> freshOver base (foldl (tagStep m) acc tags)"
  by (induction tags arbitrary: acc) (simp_all add: tagStep_fresh)

lemma memberStep_fresh: "freshOver base acc \<Longrightarrow> freshOver base (memberStep acc m)"
  by (simp add: memberStep_def foldl_tagStep_fresh split: option.splits)

lemma foldl_memberStep_fresh:
  "freshOver base acc \<Longrightarrow> freshOver base (foldl memberStep acc ms)"
  by (induction ms arbitrary: acc) (simp_all add: memberStep_fresh)

lemma tagStep_mono: "list_ex P rs \<Longrightarrow> list_ex P (tagStep m rs t)"
  using tagStep_extends[of m rs t] by (auto simp: list_ex_iff)

lemma foldl_tagStep_mono: "list_ex P rs \<Longrightarrow> list_ex P (foldl (tagStep m) rs tags)"
  by (induction tags arbitrary: rs) (simp_all add: tagStep_mono)

lemma memberStep_mono: "list_ex P rs \<Longrightarrow> list_ex P (memberStep rs m)"
  by (simp add: memberStep_def foldl_tagStep_mono split: option.splits)

lemma foldl_memberStep_mono: "list_ex P rs \<Longrightarrow> list_ex P (foldl memberStep rs ms)"
  by (induction ms arbitrary: rs) (simp_all add: memberStep_mono)

lemma foldl_tagStep_covers:
  "t \<in> set tags \<Longrightarrow> list_ex (sameKey (n_id m) t) (foldl (tagStep m) rs tags)"
  by (induction tags arbitrary: rs) (auto simp: tagStep_covers foldl_tagStep_mono)

lemma memberStep_covers:
  "healthTags_of (n_data m) = Some tags \<Longrightarrow> t \<in> set tags \<Longrightarrow>
     list_ex (sameKey (n_id m) t) (memberStep rs m)"
  by (simp add: memberStep_def foldl_tagStep_covers)

lemma foldl_memberStep_covers:
  "m \<in> set ms \<Longrightarrow> healthTags_of (n_data m) = Some tags \<Longrightarrow> t \<in> set tags \<Longrightarrow>
     list_ex (sameKey (n_id m) t) (foldl memberStep rs ms)"
  by (induction ms arbitrary: rs) (auto simp: memberStep_covers foldl_memberStep_mono)

text \<open>
  C9. Health tags. As stated (a tag is added if and only if source (b) has not captured
  it for the same member, preference-derived restrictions not being compared) the
  property fails: a tag whose label equals that of a food preference of the same member
  is not added, although no health node captured it.
\<close>

theorem healthTag_preference_counterexample:
  "m_teen \<in> set [m_teen, p_nomeat] \<and> n_type m_teen = T_member \<and>
   healthTags_of (n_data m_teen) = Some [''No Meat''] \<and>
   value_filter [m_teen, p_nomeat] [e_teen_nomeat] =
     [\<lparr>r_memberId = ''m-teen'', r_memberLabel = ''Teen'', r_source = Src_preference,
       r_label = ''No Meat'', r_sentiment = Some Avoids, r_severity = None\<rparr>]"
  by (simp add: vf_defs ex_defs)

text \<open>
  C9, amended. The restrictions of sources (a) and (b) are a prefix of the result, and
  for a tag \<open>t\<close> in the healthTags of a member node \<open>m\<close> the entries appended after that
  prefix contain one with member id \<open>m.id\<close> and label \<open>t\<close> if and only if no restriction
  of source (a) or (b) has that member id and label: the comparison is against every
  restriction collected so far, the preference-derived ones included.
\<close>

theorem healthTag_dedup:
  assumes "m \<in> set ns" and "n_type m = T_member"
    and "healthTags_of (n_data m) = Some tags" and "t \<in> set tags"
  shows "take (length (collected_a_b ns es)) (value_filter ns es) = collected_a_b ns es \<and>
         (list_ex (sameKey (n_id m) t) (drop (length (collected_a_b ns es)) (value_filter ns es))
            \<longleftrightarrow> \<not> list_ex (sameKey (n_id m) t) (collected_a_b ns es))"
proof -
  let ?base = "collected_a_b ns es"
  let ?ms = "filter (\<lambda>n. n_type n = T_member) ns"
  have vf: "value_filter ns es = foldl memberStep ?base ?ms" by (simp add: value_filter_def)
  have "freshOver ?base (value_filter ns es)"
    unfolding vf by (rule foldl_memberStep_fresh[OF freshOver_refl])
  then obtain added where a: "value_filter ns es = ?base @ added"
    and f: "\<forall>r\<in>set added. \<not> list_ex (sameKey (r_memberId r) (r_label r)) ?base"
    by (auto simp: freshOver_def)
  have "m \<in> set ?ms" using assms by simp
  then have c: "list_ex (sameKey (n_id m) t) (?base @ added)"
    using foldl_memberStep_covers[OF _ assms(3,4), of ?ms ?base] a vf by simp
  have "list_ex (sameKey (n_id m) t) added \<longleftrightarrow> \<not> list_ex (sameKey (n_id m) t) ?base"
    using c f by (auto simp: list_ex_iff sameKey_def)
  then show ?thesis by (simp add: a)
qed

theorem healthTag_dedup_witness:
  "m_grandma \<in> set [m_grandma, h_salt] \<and> n_type m_grandma = T_member \<and>
   healthTags_of (n_data m_grandma) = Some [''Low-Salt Diet'', ''Naps''] \<and>
   ''Naps'' \<in> set [''Low-Salt Diet'', ''Naps''] \<and>
   \<not> list_ex (sameKey ''m-grandma'' ''Naps'') (collected_a_b [m_grandma, h_salt] [e_grandma_salt]) \<and>
   list_ex (sameKey ''m-grandma'' ''Naps'')
     (drop (length (collected_a_b [m_grandma, h_salt] [e_grandma_salt]))
        (value_filter [m_grandma, h_salt] [e_grandma_salt]))"
proof -
  have h1: "m_grandma \<in> set [m_grandma, h_salt]" by simp
  have h2: "n_type m_grandma = T_member" by (simp add: ex_defs n_type_def)
  have h3: "healthTags_of (n_data m_grandma) = Some [''Low-Salt Diet'', ''Naps'']"
    by (simp add: ex_defs)
  have h4: "''Naps'' \<in> set [''Low-Salt Diet'', ''Naps'']" by simp
  have b: "collected_a_b [m_grandma, h_salt] [e_grandma_salt] =
     [\<lparr>r_memberId = ''m-grandma'', r_memberLabel = ''Grandma'', r_source = Src_health,
       r_label = ''Low-Salt Diet'', r_sentiment = None, r_severity = Some Sev_moderate\<rparr>]"
    by (simp add: vf_defs ex_defs)
  have h5: "\<not> list_ex (sameKey ''m-grandma'' ''Naps'')
              (collected_a_b [m_grandma, h_salt] [e_grandma_salt])"
    by (simp add: b sameKey_def)
  have i: "n_id m_grandma = ''m-grandma''" by (simp add: ex_defs)
  from healthTag_dedup[OF h1 h2 h3 h4, of "[e_grandma_salt]"] h5 i
  have "list_ex (sameKey ''m-grandma'' ''Naps'')
     (drop (length (collected_a_b [m_grandma, h_salt] [e_grandma_salt]))
        (value_filter [m_grandma, h_salt] [e_grandma_salt]))"
    by simp
  with h1 h2 h3 h4 h5 show ?thesis by simp
qed

end
